theory Spec2Isabelle
  imports Main
begin

section \<open>Values read from the source file\<close>

text \<open>
  \<^verbatim>\<open>json.load\<close> turns the source file into Python values: \<^verbatim>\<open>None\<close>, booleans,
  integers, strings, lists and dictionaries (insertion-ordered, keys distinct). A
  character stands for the code point of the same number, so texts are those over the
  code points below 256. JSON numbers with a fraction are outside this model.
\<close>

datatype json =
    JNull
  | JBool bool
  | JInt int
  | JStr string
  | JArr "json list"
  | JObj "(string \<times> json) list"

datatype py_error =
    KeyError
  | TypeError
  | AttributeError
  | IndexError
  | ValueError
  | InvalidInputError
  | EmbedderError

text \<open>Sequencing of steps that may raise: the first exception ends the run.\<close>

fun and_then :: "py_error + 'a \<Rightarrow> ('a \<Rightarrow> py_error + 'b) \<Rightarrow> py_error + 'b" where
  "and_then (Inl e) f = Inl e"
| "and_then (Inr x) f = f x"

text \<open>\<^verbatim>\<open>d.get(k, default)\<close>: only a dictionary has the method.\<close>

fun py_get :: "json \<Rightarrow> string \<Rightarrow> json \<Rightarrow> py_error + json" where
  "py_get (JObj kvs) k d = Inr (case map_of kvs k of None \<Rightarrow> d | Some v \<Rightarrow> v)"
| "py_get _ k d = Inl AttributeError"

text \<open>\<^verbatim>\<open>d[k]\<close> with a string key.\<close>

fun py_subscript :: "json \<Rightarrow> string \<Rightarrow> py_error + json" where
  "py_subscript (JObj kvs) k = (case map_of kvs k of None \<Rightarrow> Inl KeyError | Some v \<Rightarrow> Inr v)"
| "py_subscript _ k = Inl TypeError"

text \<open>
  Iteration (\<^verbatim>\<open>for x in v\<close>): a list gives its items, a string its characters, a
  dictionary its keys; nothing else is iterable.
\<close>

fun py_iter :: "json \<Rightarrow> py_error + json list" where
  "py_iter (JArr xs) = Inr xs"
| "py_iter (JStr s) = Inr (map (\<lambda>c. JStr [c]) s)"
| "py_iter (JObj kvs) = Inr (map (\<lambda>kv. JStr (fst kv)) kvs)"
| "py_iter _ = Inl TypeError"

text \<open>\<^verbatim>\<open>bool(v)\<close>.\<close>

fun py_bool :: "json \<Rightarrow> bool" where
  "py_bool JNull = False"
| "py_bool (JBool b) = b"
| "py_bool (JInt i) = (i \<noteq> 0)"
| "py_bool (JStr s) = (s \<noteq> [])"
| "py_bool (JArr xs) = (xs \<noteq> [])"
| "py_bool (JObj kvs) = (kvs \<noteq> [])"

section \<open>Text\<close>

fun join :: "string \<Rightarrow> string list \<Rightarrow> string" where
  "join sep [] = []"
| "join sep [x] = x"
| "join sep (x # y # ys) = x @ sep @ join sep (y # ys)"

text \<open>\<^verbatim>\<open>sep.join(items)\<close> raises \<^verbatim>\<open>TypeError\<close> on an item that is not a string.\<close>

fun str_items :: "json list \<Rightarrow> py_error + string list" where
  "str_items [] = Inr []"
| "str_items (JStr s # xs) = and_then (str_items xs) (\<lambda>ss. Inr (s # ss))"
| "str_items (_ # xs) = Inl TypeError"

definition py_join :: "string \<Rightarrow> json list \<Rightarrow> py_error + string" where
  "py_join sep items = and_then (str_items items) (\<lambda>ss. Inr (join sep ss))"

text \<open>Decimal digits of a natural number, as \<^verbatim>\<open>str(n)\<close> writes them.\<close>

definition digit_char :: "nat \<Rightarrow> char" where
  "digit_char d = char_of (48 + d mod 10)"

fun str_nat :: "nat \<Rightarrow> string" where
  "str_nat n = (if n < 10 then [digit_char n] else str_nat (n div 10) @ [digit_char (n mod 10)])"

declare str_nat.simps [simp del]

definition str_int :: "int \<Rightarrow> string" where
  "str_int i = (if i < 0 then CHR ''-'' # str_nat (nat (- i)) else str_nat (nat i))"

text \<open>Reading decimal digits back, to tell the ids of two positions apart.\<close>

definition digit_val :: "char \<Rightarrow> nat" where
  "digit_val c = of_char c - 48"

definition nat_of_digits :: "string \<Rightarrow> nat" where
  "nat_of_digits s = foldl (\<lambda>a c. 10 * a + digit_val c) 0 s"

definition hex_digit :: "nat \<Rightarrow> char" where
  "hex_digit d = ''0123456789abcdef'' ! (d mod 16)"

definition hex2 :: "nat \<Rightarrow> string" where
  "hex2 n = [hex_digit (n div 16), hex_digit n]"

text \<open>
  \<^verbatim>\<open>repr\<close> of a string: double quotes only when the text has a single quote and no
  double quote; the quote and the backslash are escaped, tab, newline and return get
  their short forms, and the other unprintable code points are written \<^verbatim>\<open>\xhh\<close>.
\<close>

definition repr_quote :: "string \<Rightarrow> char" where
  "repr_quote s = (if CHR 0x27 \<in> set s \<and> CHR 0x22 \<notin> set s then CHR 0x22 else CHR 0x27)"

definition unprintable :: "char \<Rightarrow> bool" where
  "unprintable c = (let n = (of_char c :: nat) in
     n < 32 \<or> (127 \<le> n \<and> n \<le> 160) \<or> n = 173)"

definition repr_char :: "char \<Rightarrow> char \<Rightarrow> string" where
  "repr_char q c =
     (if c = q \<or> c = CHR 0x5C then [CHR 0x5C, c]
      else if c = CHR 0x09 then [CHR 0x5C, CHR ''t'']
      else if c = CHR 0x0A then [CHR 0x5C, CHR ''n'']
      else if c = CHR 0x0D then [CHR 0x5C, CHR ''r'']
      else if unprintable c then [CHR 0x5C, CHR ''x''] @ hex2 (of_char c)
      else [c])"

definition repr_str :: "string \<Rightarrow> string" where
  "repr_str s = (let q = repr_quote s in [q] @ concat (map (repr_char q) s) @ [q])"

fun py_repr :: "json \<Rightarrow> string" where
  "py_repr JNull = ''None''"
| "py_repr (JBool b) = (if b then ''True'' else ''False'')"
| "py_repr (JInt i) = str_int i"
| "py_repr (JStr s) = repr_str s"
| "py_repr (JArr xs) = ''['' @ join '', '' (map py_repr xs) @ '']''"
| "py_repr (JObj kvs) =
     ''{'' @ join '', '' (map (\<lambda>kv. repr_str (fst kv) @ '': '' @ py_repr (snd kv)) kvs) @ ''}''"

text \<open>How an f-string writes a value: \<^verbatim>\<open>str(v)\<close>, the text itself for a string.\<close>

fun py_str :: "json \<Rightarrow> string" where
  "py_str (JStr s) = s"
| "py_str v = py_repr v"

text \<open>
  \<^verbatim>\<open>json.dumps(v)\<close> with its defaults: separators \<^verbatim>\<open>", "\<close> and \<^verbatim>\<open>": "\<close>, and every
  character outside the range from space to tilde escaped.
\<close>

definition hex4 :: "nat \<Rightarrow> string" where
  "hex4 n = [hex_digit (n div 4096), hex_digit (n div 256), hex_digit (n div 16), hex_digit n]"

definition dumps_char :: "char \<Rightarrow> string" where
  "dumps_char c =
     (if c = CHR 0x22 \<or> c = CHR 0x5C then [CHR 0x5C, c]
      else if c = CHR 0x08 then [CHR 0x5C, CHR ''b'']
      else if c = CHR 0x0C then [CHR 0x5C, CHR ''f'']
      else if c = CHR 0x0A then [CHR 0x5C, CHR ''n'']
      else if c = CHR 0x0D then [CHR 0x5C, CHR ''r'']
      else if c = CHR 0x09 then [CHR 0x5C, CHR ''t'']
      else if (of_char c :: nat) < 32 \<or> 126 < (of_char c :: nat)
        then [CHR 0x5C, CHR ''u''] @ hex4 (of_char c)
      else [c])"

definition dumps_str :: "string \<Rightarrow> string" where
  "dumps_str s = [CHR 0x22] @ concat (map dumps_char s) @ [CHR 0x22]"

fun json_dumps :: "json \<Rightarrow> string" where
  "json_dumps JNull = ''null''"
| "json_dumps (JBool b) = (if b then ''true'' else ''false'')"
| "json_dumps (JInt i) = str_int i"
| "json_dumps (JStr s) = dumps_str s"
| "json_dumps (JArr xs) = ''['' @ join '', '' (map json_dumps xs) @ '']''"
| "json_dumps (JObj kvs) =
     ''{'' @ join '', '' (map (\<lambda>kv. dumps_str (fst kv) @ '': '' @ json_dumps (snd kv)) kvs) @ ''}''"

text \<open>
  \<^verbatim>\<open>str.lower()\<close> and \<^verbatim>\<open>str.strip()\<close> on code points below 256: the capital letters
  are A to Z and the accented capitals 192 to 222 (215, the multiplication sign, is
  not one); white space is 9 to 13, 28 to 32, 133 and 160.
\<close>

definition lower_char :: "char \<Rightarrow> char" where
  "lower_char c = (let n = (of_char c :: nat) in
     if (65 \<le> n \<and> n \<le> 90) \<or> (192 \<le> n \<and> n \<le> 222 \<and> n \<noteq> 215) then char_of (n + 32) else c)"

definition py_lower :: "string \<Rightarrow> string" where
  "py_lower s = map lower_char s"

definition py_isspace :: "char \<Rightarrow> bool" where
  "py_isspace c = (let n = (of_char c :: nat) in
     (9 \<le> n \<and> n \<le> 13) \<or> (28 \<le> n \<and> n \<le> 32) \<or> n = 133 \<or> n = 160)"

definition py_strip :: "string \<Rightarrow> string" where
  "py_strip s = rev (dropWhile py_isspace (rev (dropWhile py_isspace s)))"

section \<open>Pipeline.py, step 2: one record per source entry\<close>

text \<open>
  The dictionary \<^verbatim>\<open>record\<close> built in the loop over \<^verbatim>\<open>data["patentdata"]\<close>. The four
  fields read with \<^verbatim>\<open>.get\<close> keep whatever value the source holds, \<^verbatim>\<open>None\<close> when the
  key is missing.
\<close>

record patent_record =
  application_number :: json
  filing_date :: json
  entity_type :: json
  first_inventor_flag :: json
  inventors :: string
  correspondence_text :: string
  summary_text :: string
  source_fingerprint :: string
  quality_score :: int

text \<open>\<^verbatim>\<open>[i.get("inventorNameText", "") for i in inventors]\<close>\<close>

fun inventor_names_of :: "json list \<Rightarrow> py_error + json list" where
  "inventor_names_of [] = Inr []"
| "inventor_names_of (i # rest) =
     and_then (py_get i ''inventorNameText'' (JStr []))
       (\<lambda>name. and_then (inventor_names_of rest) (\<lambda>names. Inr (name # names)))"

text \<open>\<^verbatim>\<open>f"{record['inventors']} | {record['entity_type']} | {record['filing_date']}"\<close>\<close>

definition summary_of :: "string \<Rightarrow> json \<Rightarrow> json \<Rightarrow> string" where
  "summary_of invs et fd = invs @ '' | '' @ py_str et @ '' | '' @ py_str fd"

text \<open>\<^verbatim>\<open>f"{record['application_number']}-{summary_text}"\<close>, the text that is hashed.\<close>

definition fingerprint_input :: "json \<Rightarrow> string \<Rightarrow> string" where
  "fingerprint_input appno summary = py_str appno @ ''-'' @ summary"

text \<open>
  The body of the loop. \<open>sha256\<close> stands for
  \<^verbatim>\<open>lambda s: hashlib.sha256(s.encode()).hexdigest()\<close>, a function of the standard
  library that the pipeline takes as it is.
\<close>

definition make_record :: "(string \<Rightarrow> string) \<Rightarrow> json \<Rightarrow> py_error + patent_record" where
  "make_record sha256 entry =
     and_then (py_get entry ''applicationMetaData'' (JObj [])) (\<lambda>meta.
     and_then (py_get entry ''correspondenceAddressBag'' (JObj [])) (\<lambda>corr.
     and_then (py_get meta ''inventorBag'' (JArr [])) (\<lambda>bag.
     and_then (py_iter bag) (\<lambda>inventor_list.
     and_then (inventor_names_of inventor_list) (\<lambda>inventor_names.
     and_then (py_get entry ''applicationNumberText'' JNull) (\<lambda>appno.
     and_then (py_get meta ''filingDate'' JNull) (\<lambda>fd.
     and_then (py_get meta ''entityStatusData'' (JObj [])) (\<lambda>status.
     and_then (py_get status ''businessEntityStatusCategory'' JNull) (\<lambda>et.
     and_then (py_get meta ''firstInventorToFileIndicator'' JNull) (\<lambda>flag.
     and_then (py_join '', '' inventor_names) (\<lambda>invs.
       let summary = summary_of invs et fd in
       Inr \<lparr> application_number = appno,
             filing_date = fd,
             entity_type = et,
             first_inventor_flag = flag,
             inventors = invs,
             correspondence_text = json_dumps corr,
             summary_text = summary,
             source_fingerprint = sha256 (fingerprint_input appno summary),
             quality_score = int (length inventor_names) + (if py_bool fd then 1 else 0) \<rparr>
     )))))))))))"

text \<open>The loop: every entry appends one record; an exception ends the script.\<close>

fun build_records :: "(string \<Rightarrow> string) \<Rightarrow> json list \<Rightarrow> py_error + patent_record list" where
  "build_records sha256 [] = Inr []"
| "build_records sha256 (entry # rest) =
     and_then (make_record sha256 entry)
       (\<lambda>r. and_then (build_records sha256 rest) (\<lambda>rs. Inr (r # rs)))"

definition load_records :: "(string \<Rightarrow> string) \<Rightarrow> json \<Rightarrow> py_error + patent_record list" where
  "load_records sha256 data =
     and_then (py_subscript data ''patentdata'')
       (\<lambda>pd. and_then (py_iter pd) (build_records sha256))"

section \<open>Pipeline.py, steps 3 to 5: the two stores\<close>

text \<open>
  Step 4 lowers and strips two columns of a copy of the frame:
  \<^verbatim>\<open>df_clean[c] = df_clean[c].str.lower().str.strip()\<close> for \<^verbatim>\<open>summary_text\<close> and
  \<^verbatim>\<open>inventors\<close>.
\<close>

definition clean_text :: "string \<Rightarrow> string" where
  "clean_text s = py_strip (py_lower s)"

definition clean_row :: "patent_record \<Rightarrow> patent_record" where
  "clean_row r = r \<lparr> summary_text := clean_text (summary_text r),
                     inventors := clean_text (inventors r) \<rparr>"

text \<open>The five columns handed to the vector store as metadata.\<close>

record metadata =
  meta_application_number :: json
  meta_filing_date :: json
  meta_entity_type :: json
  meta_source_fingerprint :: string
  meta_quality_score :: int

definition metadata_of :: "patent_record \<Rightarrow> metadata" where
  "metadata_of r =
     \<lparr> meta_application_number = application_number r,
       meta_filing_date = filing_date r,
       meta_entity_type = entity_type r,
       meta_source_fingerprint = source_fingerprint r,
       meta_quality_score = quality_score r \<rparr>"

text \<open>An entry of the vector collection; \<open>'v\<close> is the type of the embedding vectors.\<close>

record 'v item =
  item_id :: string
  document :: string
  embedding :: "'v"
  item_metadata :: metadata

text \<open>
  What is on disk: the two tables of the DuckDB file (rows numbered from 0 in
  insertion order, DuckDB's \<^verbatim>\<open>rowid\<close>) and the collection \<^verbatim>\<open>patent_embeddings\<close> of
  the Chroma directory; \<open>None\<close> is a table or collection that does not exist.
\<close>

record 'v stores =
  raw_patents :: "patent_record list option"
  cleaned_patents :: "patent_record list option"
  patent_embeddings :: "'v item list option"

text \<open>One entry per position of the four lists.\<close>

fun zip_items :: "string list \<Rightarrow> string list \<Rightarrow> 'v list \<Rightarrow> metadata list \<Rightarrow> 'v item list" where
  "zip_items (i # ids) (d # docs) (e # embs) (m # metas) =
     \<lparr> item_id = i, document = d, embedding = e, item_metadata = m \<rparr> # zip_items ids docs embs metas"
| "zip_items _ _ _ _ = []"

text \<open>
  Modelled from the spec: the vector store's \<^verbatim>\<open>add(ids, vectors, metadatas)\<close> of
  section 6, here \<^verbatim>\<open>collection.add(documents, embeddings, metadatas, ids)\<close> of the
  Chroma library, whose code is not in the repository. It refuses lists of different
  lengths and otherwise appends one entry per position.
\<close>

definition collection_add ::
  "'v item list \<Rightarrow> string list \<Rightarrow> 'v list \<Rightarrow> metadata list \<Rightarrow> string list \<Rightarrow> py_error + 'v item list" where
  "collection_add coll docs embs metas ids =
     (if length docs = length ids \<and> length embs = length ids \<and> length metas = length ids
      then Inr (coll @ zip_items ids docs embs metas)
      else Inl ValueError)"

text \<open>
  The script after the loop. \<open>encode\<close> stands for \<^verbatim>\<open>model.encode\<close> (line 112),
  \<open>Inl\<close> being an exception of the embedder. DuckDB refuses a frame without
  columns, which is what \<^verbatim>\<open>pd.DataFrame([])\<close> is. Each store operation takes effect
  when it runs, so a later exception leaves the stores as they are at that line. The
  rows are kept as the records are: the column types that pandas and DuckDB infer are
  not part of the model.
\<close>

definition store_records ::
  "(string list \<Rightarrow> py_error + 'v list) \<Rightarrow> patent_record list \<Rightarrow> 'v stores
     \<Rightarrow> (py_error + unit) \<times> 'v stores" where
  "store_records encode records st =
     (let dropped = st \<lparr> raw_patents := None, cleaned_patents := None \<rparr> in
      if records = [] then (Inl InvalidInputError, dropped)
      else
        let df_clean = map clean_row records;
            tables = dropped \<lparr> raw_patents := Some records, cleaned_patents := Some df_clean \<rparr>;
            fresh = tables \<lparr> patent_embeddings := Some [] \<rparr>;
            texts = map summary_text df_clean;
            metadatas = map metadata_of df_clean
        in case encode texts of
             Inl e \<Rightarrow> (Inl e, fresh)
           | Inr embeddings \<Rightarrow>
               (case collection_add [] texts embeddings metadatas
                       (map str_nat [0 ..< length texts]) of
                  Inl e \<Rightarrow> (Inl e, fresh)
                | Inr coll \<Rightarrow> (Inr (), fresh \<lparr> patent_embeddings := Some coll \<rparr>)))"

definition run_pipeline ::
  "(string \<Rightarrow> string) \<Rightarrow> (string list \<Rightarrow> py_error + 'v list) \<Rightarrow> json \<Rightarrow> 'v stores
     \<Rightarrow> (py_error + unit) \<times> 'v stores" where
  "run_pipeline sha256 encode data st =
     (case load_records sha256 data of
        Inl e \<Rightarrow> (Inl e, st)
      | Inr records \<Rightarrow> store_records encode records st)"

section \<open>app.py: the search endpoint\<close>

text \<open>
  Modelled from the spec: the vector store's \<^verbatim>\<open>query(vector, k)\<close> of sections 4.4
  and 6, here \<^verbatim>\<open>collection.query(query_embeddings=[v], n_results=n)\<close> of the Chroma
  library, whose code is not in the repository. It gives the \<open>n\<close> entries nearest to
  \<open>v\<close>, nearest first, all of them when there are fewer. \<open>dist\<close> is the distance of
  the vector store; entries at the same distance stay in insertion order.
\<close>

definition collection_query ::
  "('v \<Rightarrow> 'v \<Rightarrow> 'd::linorder) \<Rightarrow> 'v item list \<Rightarrow> 'v \<Rightarrow> nat \<Rightarrow> 'v item list" where
  "collection_query dist coll v n = take n (sort_key (\<lambda>it. dist v (embedding it)) coll)"

text \<open>\<^verbatim>\<open>chroma_client.get_or_create_collection("patent_embeddings")\<close>\<close>

definition get_or_create_collection :: "'v stores \<Rightarrow> 'v item list" where
  "get_or_create_collection st = (case patent_embeddings st of None \<Rightarrow> [] | Some coll \<Rightarrow> coll)"

text \<open>\<^verbatim>\<open>model.encode(text)\<close> with one text gives the vector of that text.\<close>

definition encode_one :: "(string list \<Rightarrow> py_error + 'v list) \<Rightarrow> string \<Rightarrow> py_error + 'v" where
  "encode_one encode text =
     and_then (encode [text]) (\<lambda>vs. case vs of [] \<Rightarrow> Inl IndexError | v # _ \<Rightarrow> Inr v)"

record search_result =
  res_summary :: string
  res_application_number :: json
  res_filing_date :: json
  res_entity_type :: json
  res_quality_score :: int
  res_source_fingerprint :: string

definition result_of :: "'v item \<Rightarrow> search_result" where
  "result_of it =
     \<lparr> res_summary = document it,
       res_application_number = meta_application_number (item_metadata it),
       res_filing_date = meta_filing_date (item_metadata it),
       res_entity_type = meta_entity_type (item_metadata it),
       res_quality_score = meta_quality_score (item_metadata it),
       res_source_fingerprint = meta_source_fingerprint (item_metadata it) \<rparr>"

text \<open>The handler \<^verbatim>\<open>search_patents\<close>, given the validated request's \<^verbatim>\<open>query\<close>.\<close>

definition search_patents ::
  "(string list \<Rightarrow> py_error + 'v list) \<Rightarrow> ('v \<Rightarrow> 'v \<Rightarrow> 'd::linorder) \<Rightarrow> 'v item list \<Rightarrow> string
     \<Rightarrow> py_error + search_result list" where
  "search_patents encode dist coll query =
     and_then (encode_one encode query)
       (\<lambda>query_embedding. Inr (map result_of (collection_query dist coll query_embedding 3)))"

text \<open>
  \<^verbatim>\<open>POST /search\<close>: the body is validated against \<^verbatim>\<open>QueryInput\<close>, whose one field
  \<^verbatim>\<open>query: str\<close> is required; a body that fails validation is answered with status
  422 and the handler does not run. An exception in the handler is status 500.
\<close>

datatype http_response = Ok "search_result list" | Unprocessable | ServerError

fun validate_QueryInput :: "json \<Rightarrow> string option" where
  "validate_QueryInput (JObj kvs) =
     (case map_of kvs ''query'' of Some (JStr q) \<Rightarrow> Some q | _ \<Rightarrow> None)"
| "validate_QueryInput _ = None"

definition post_search ::
  "(string list \<Rightarrow> py_error + 'v list) \<Rightarrow> ('v \<Rightarrow> 'v \<Rightarrow> 'd::linorder) \<Rightarrow> 'v item list \<Rightarrow> json
     \<Rightarrow> http_response" where
  "post_search encode dist coll body =
     (case validate_QueryInput body of
        None \<Rightarrow> Unprocessable
      | Some q \<Rightarrow> (case search_patents encode dist coll q of
                    Inl e \<Rightarrow> ServerError
                  | Inr results \<Rightarrow> Ok results))"

section \<open>Source entries of the expected shape\<close>




section \<open>Example data\<close>

text \<open>
  The record of the end-to-end example (inventor Alice Smith, filed 2024-01-01, entity
  type UNDISCOUNTED) and a second, different filing.
\<close>

definition record_A :: json where
  "record_A = JObj
     [(''applicationNumberText'', JStr ''16123456''),
      (''applicationMetaData'', JObj
         [(''filingDate'', JStr ''2024-01-01''),
          (''entityStatusData'', JObj [(''businessEntityStatusCategory'', JStr ''UNDISCOUNTED'')]),
          (''firstInventorToFileIndicator'', JStr ''Y''),
          (''inventorBag'', JArr [JObj [(''inventorNameText'', JStr ''Alice Smith'')]])]),
      (''correspondenceAddressBag'', JArr [JObj [(''cityName'', JStr ''Austin'')]])]"

definition record_B :: json where
  "record_B = JObj
     [(''applicationNumberText'', JStr ''17000001''),
      (''applicationMetaData'', JObj
         [(''filingDate'', JStr ''2023-05-05''),
          (''entityStatusData'', JObj [(''businessEntityStatusCategory'', JStr ''SMALL'')]),
          (''firstInventorToFileIndicator'', JStr ''Y''),
          (''inventorBag'', JArr [JObj [(''inventorNameText'', JStr ''Bob Jones'')]])])]"

definition row_A :: patent_record where
  "row_A = \<lparr> application_number = JStr ''16123456'',
             filing_date = JStr ''2024-01-01'',
             entity_type = JStr ''UNDISCOUNTED'',
             first_inventor_flag = JStr ''Y'',
             inventors = ''Alice Smith'',
             correspondence_text = json_dumps (JArr [JObj [(''cityName'', JStr ''Austin'')]]),
             summary_text = ''Alice Smith | UNDISCOUNTED | 2024-01-01'',
             source_fingerprint = ''16123456-Alice Smith | UNDISCOUNTED | 2024-01-01'',
             quality_score = 2 \<rparr>"

definition row_B :: patent_record where
  "row_B = \<lparr> application_number = JStr ''17000001'',
             filing_date = JStr ''2023-05-05'',
             entity_type = JStr ''SMALL'',
             first_inventor_flag = JStr ''Y'',
             inventors = ''Bob Jones'',
             correspondence_text = ''{}'',
             summary_text = ''Bob Jones | SMALL | 2023-05-05'',
             source_fingerprint = ''17000001-Bob Jones | SMALL | 2023-05-05'',
             quality_score = 2 \<rparr>"

text \<open>The two rows after step 4, and the vector entry made from a cleaned row.\<close>

definition cleaned_A :: patent_record where
  "cleaned_A = row_A \<lparr> summary_text := ''alice smith | undiscounted | 2024-01-01'',
                       inventors := ''alice smith'' \<rparr>"

definition cleaned_B :: patent_record where
  "cleaned_B = row_B \<lparr> summary_text := ''bob jones | small | 2023-05-05'',
                       inventors := ''bob jones'' \<rparr>"

definition item_of :: "string \<Rightarrow> patent_record \<Rightarrow> string item" where
  "item_of i r = \<lparr> item_id = i, document = summary_text r, embedding = summary_text r,
                   item_metadata = metadata_of r \<rparr>"

text \<open>The source file holding the given entries.\<close>

definition data_of :: "json list \<Rightarrow> json" where
  "data_of entries = JObj [(''patentdata'', JArr entries)]"





text \<open>
  Collaborators for the examples: a digest that returns its input, an embedder whose
  vector is the text it is given, an embedder that raises, and a distance that is 0
  when the stored text starts with the query text and 1 otherwise.
\<close>

definition example_digest :: "string \<Rightarrow> string" where
  "example_digest s = s"

definition example_encode :: "string list \<Rightarrow> py_error + string list" where
  "example_encode texts = Inr texts"


definition example_dist :: "string \<Rightarrow> string \<Rightarrow> nat" where
  "example_dist q d = (if take (length q) d = q then 0 else 1)"

definition no_stores :: "string stores" where
  "no_stores = \<lparr> raw_patents = None, cleaned_patents = None, patent_embeddings = None \<rparr>"

text \<open>An embedder that folds case and trims before it embeds.\<close>

definition folding_encode :: "string list \<Rightarrow> py_error + string list" where
  "folding_encode texts = Inr (map clean_text texts)"

text \<open>The stores after a build from the example record, and from the two filings.\<close>

definition snapshot_A :: "string stores" where
  "snapshot_A = \<lparr> raw_patents = Some [row_A], cleaned_patents = Some [cleaned_A],
                   patent_embeddings = Some [item_of ''0'' cleaned_A] \<rparr>"

definition snapshot_BA :: "string stores" where
  "snapshot_BA = \<lparr> raw_patents = Some [row_B, row_A],
                    cleaned_patents = Some [cleaned_B, cleaned_A],
                    patent_embeddings = Some [item_of ''0'' cleaned_B, item_of ''1'' cleaned_A] \<rparr>"

section \<open>Properties\<close>

lemma and_then_InrD: "and_then m f = Inr y \<Longrightarrow> \<exists>x. m = Inr x \<and> f x = Inr y"
  by (cases m) auto

subsection \<open>The examples, evaluated\<close>




lemma run_A:
  "run_pipeline example_digest example_encode (data_of [record_A]) no_stores = (Inr (), snapshot_A)"
  by code_simp

lemma run_BA:
  "run_pipeline example_digest example_encode (data_of [record_B, record_A]) no_stores =
   (Inr (), snapshot_BA)"
  by code_simp

lemma run_AA:
  "run_pipeline example_digest example_encode (data_of [record_A, record_A]) no_stores =
   (Inr (), \<lparr> raw_patents = Some [row_A, row_A], cleaned_patents = Some [cleaned_A, cleaned_A],
              patent_embeddings = Some [item_of ''0'' cleaned_A, item_of ''1'' cleaned_A] \<rparr>)"
  by code_simp

subsection \<open>Quality score\<close>




subsection \<open>Size of the result list\<close>

text \<open>
  C6. Whenever the embedder returns a vector for the query, the search returns a
  list of results whose length is the smaller of 3 and the number of entries of the
  collection: never more than 3, fewer only when the collection holds fewer, and
  exactly 1 for a collection of one entry.
\<close>

theorem search_result_count:
  assumes "encode [q] = Inr (v # vs)"
  shows "\<exists>results. search_patents encode dist coll q = Inr results \<and>
           length results = min 3 (length coll)"
  using assms by (simp add: search_patents_def encode_one_def collection_query_def)

theorem search_result_count_witness:
  "example_encode [''alice smith''] = Inr [''alice smith''] \<and>
   (\<exists>results. search_patents example_encode example_dist [item_of ''0'' cleaned_A] ''alice smith''
        = Inr results \<and> length results = min 3 (length [item_of ''0'' cleaned_A]))"
proof -
  have h: "example_encode [''alice smith''] = Inr [''alice smith'']"
    by (simp add: example_encode_def)
  from h have h': "example_encode [''alice smith''] = Inr (''alice smith'' # [])" .
  from h search_result_count [where encode = example_encode and q = "''alice smith''"
      and v = "''alice smith''" and vs = "[]" and dist = example_dist
      and coll = "[item_of ''0'' cleaned_A]", OF h']
  show ?thesis by (rule conjI)
qed

subsection \<open>No deduplication\<close>

lemma build_records_map:
  "build_records sha256 entries = Inr records \<Longrightarrow>
   map (make_record sha256) entries = map Inr records"
  by (induction entries arbitrary: records) (auto dest!: and_then_InrD)

lemma zip_items_same_length:
  "length docs = length ids \<Longrightarrow> length embs = length ids \<Longrightarrow> length metas = length ids \<Longrightarrow>
   map item_id (zip_items ids docs embs metas) = ids \<and>
   map document (zip_items ids docs embs metas) = docs \<and>
   map embedding (zip_items ids docs embs metas) = embs \<and>
   map item_metadata (zip_items ids docs embs metas) = metas"
proof (induction ids docs embs metas rule: zip_items.induct)
  case (1 i ids d docs e embs m metas)
  then show ?case by simp
qed simp_all

lemma store_records_success:
  assumes "store_records encode records st = (Inr (), st')"
  shows "\<exists>embeddings coll. records \<noteq> [] \<and>
     encode (map (summary_text \<circ> clean_row) records) = Inr embeddings \<and>
     length embeddings = length records \<and>
     st' = st \<lparr> raw_patents := Some records, cleaned_patents := Some (map clean_row records),
                patent_embeddings := Some coll \<rparr> \<and>
     map item_id coll = map str_nat [0 ..< length records] \<and>
     map document coll = map (summary_text \<circ> clean_row) records \<and>
     map embedding coll = embeddings \<and>
     map item_metadata coll = map (metadata_of \<circ> clean_row) records"
  using assms unfolding store_records_def Let_def collection_add_def
  by (auto split: if_splits sum.splits simp: zip_items_same_length)

text \<open>
  C2, as the code has it. The builder never collapses records: every entry of the
  source list yields one row of each table and one entry of the vector collection, in
  the order of the source, whether or not fingerprints repeat.
\<close>

theorem every_entry_is_stored:
  assumes "py_subscript data ''patentdata'' = Inr (JArr entries)"
    and "run_pipeline sha256 encode data st = (Inr (), st')"
  shows "\<exists>records coll.
           map (make_record sha256) entries = map Inr records \<and>
           raw_patents st' = Some records \<and>
           cleaned_patents st' = Some (map clean_row records) \<and>
           patent_embeddings st' = Some coll \<and>
           map item_metadata coll = map (metadata_of \<circ> clean_row) records \<and>
           length coll = length entries"
proof -
  from assms obtain records where
    b: "build_records sha256 entries = Inr records" and
    s: "store_records encode records st = (Inr (), st')"
    unfolding run_pipeline_def load_records_def by (auto split: sum.splits)
  from store_records_success [OF s] obtain coll where
    c: "raw_patents st' = Some records" "cleaned_patents st' = Some (map clean_row records)"
       "patent_embeddings st' = Some coll"
       "map item_metadata coll = map (metadata_of \<circ> clean_row) records"
    by auto
  have m: "map (make_record sha256) entries = map Inr records"
    by (rule build_records_map [OF b])
  have "length (map item_metadata coll) = length (map (make_record sha256) entries)"
    by (simp only: c(4) m length_map)
  then have l: "length coll = length entries" by simp
  from m c l show ?thesis by blast
qed

theorem every_entry_is_stored_witness:
  "py_subscript (data_of [record_A, record_A]) ''patentdata'' = Inr (JArr [record_A, record_A]) \<and>
   (\<exists>st'. run_pipeline example_digest example_encode (data_of [record_A, record_A]) no_stores
            = (Inr (), st') \<and>
      (\<exists>records coll.
           map (make_record example_digest) [record_A, record_A] = map Inr records \<and>
           raw_patents st' = Some records \<and>
           cleaned_patents st' = Some (map clean_row records) \<and>
           patent_embeddings st' = Some coll \<and>
           map item_metadata coll = map (metadata_of \<circ> clean_row) records \<and>
           length coll = length [record_A, record_A]))"
proof -
  have h: "py_subscript (data_of [record_A, record_A]) ''patentdata'' = Inr (JArr [record_A, record_A])"
    by (simp add: data_of_def)
  from every_entry_is_stored [OF h run_AA] h run_AA show ?thesis by blast
qed

text \<open>
  C2 as stated fails: the example record ingested twice gives two rows and two vector
  entries, with ids 0 and 1 and the same fingerprint.
\<close>

theorem duplicate_record_stored_twice:
  "map_option (map source_fingerprint)
     (cleaned_patents (snd (run_pipeline example_digest example_encode
        (data_of [record_A, record_A]) no_stores))) =
     Some [''16123456-Alice Smith | UNDISCOUNTED | 2024-01-01'',
           ''16123456-Alice Smith | UNDISCOUNTED | 2024-01-01''] \<and>
   map_option (map item_id)
     (patent_embeddings (snd (run_pipeline example_digest example_encode
        (data_of [record_A, record_A]) no_stores))) = Some [''0'', ''1'']"
  by (simp add: run_AA cleaned_A_def row_A_def item_of_def)

subsection \<open>A failed build\<close>






subsection \<open>Ids of the two stores\<close>

lemma digit_val_digit_char: "d < 10 \<Longrightarrow> digit_val (digit_char d) = d"
  by (simp add: digit_val_def digit_char_def)

lemma nat_of_digits_snoc: "nat_of_digits (s @ [c]) = 10 * nat_of_digits s + digit_val c"
  by (simp add: nat_of_digits_def)

lemma nat_of_digits_str_nat: "nat_of_digits (str_nat n) = n"
proof (induction n rule: str_nat.induct)
  case (1 n)
  show ?case
  proof (cases "n < 10")
    case True
    then show ?thesis
      by (subst str_nat.simps) (simp add: nat_of_digits_def digit_val_digit_char)
  next
    case False
    then have "nat_of_digits (str_nat n) =
        10 * nat_of_digits (str_nat (n div 10)) + digit_val (digit_char (n mod 10))"
      by (subst str_nat.simps) (simp add: nat_of_digits_snoc)
    also have "\<dots> = 10 * (n div 10) + n mod 10"
      using 1 False by (simp add: digit_val_digit_char)
    finally show ?thesis by simp
  qed
qed

lemma inj_str_nat: "inj str_nat"
  by (rule inj_on_inverseI [where g = nat_of_digits]) (rule nat_of_digits_str_nat)

text \<open>
  C4. After a build that completes, the cleaned table and the vector collection have
  the same number of entries, the ids of the collection are the decimal row numbers
  0, 1, ... of the table, no id occurs twice, and writing a row number in decimal is
  a bijection between the rows of the table and the ids of the collection.
\<close>

theorem snapshot_ids_bijective:
  assumes "run_pipeline sha256 encode data st = (Inr (), st')"
  shows "\<exists>rows coll.
           cleaned_patents st' = Some rows \<and> patent_embeddings st' = Some coll \<and>
           length coll = length rows \<and>
           map item_id coll = map str_nat [0 ..< length rows] \<and>
           distinct (map item_id coll) \<and>
           bij_betw str_nat {0 ..< length rows} (set (map item_id coll))"
proof -
  from assms obtain records where st: "store_records encode records st = (Inr (), st')"
    unfolding run_pipeline_def by (auto split: sum.splits)
  define rows where "rows = map clean_row records"
  from store_records_success [OF st] obtain coll where
    c: "cleaned_patents st' = Some rows" "patent_embeddings st' = Some coll"
       "map item_id coll = map str_nat [0 ..< length rows]"
    unfolding rows_def by auto
  have "length (map item_id coll) = length (map str_nat [0 ..< length rows])"
    by (simp only: c(3))
  then have len: "length coll = length rows"
    by simp
  have inj: "inj_on str_nat {0 ..< length rows}"
    by (rule inj_on_subset [OF inj_str_nat]) simp
  have d: "distinct (map item_id coll)"
    unfolding c(3) by (simp add: distinct_map inj)
  have s: "set (map item_id coll) = str_nat ` {0 ..< length rows}"
    unfolding c(3) by simp
  have b: "bij_betw str_nat {0 ..< length rows} (set (map item_id coll))"
    unfolding s by (rule inj_on_imp_bij_betw [OF inj])
  from c len d b show ?thesis by blast
qed

theorem snapshot_ids_bijective_witness:
  "run_pipeline example_digest example_encode (data_of [record_B, record_A]) no_stores =
     (Inr (), snapshot_BA) \<and>
   (\<exists>rows coll.
      cleaned_patents snapshot_BA = Some rows \<and> patent_embeddings snapshot_BA = Some coll \<and>
      length coll = length rows \<and>
      map item_id coll = map str_nat [0 ..< length rows] \<and>
      distinct (map item_id coll) \<and>
      bij_betw str_nat {0 ..< length rows} (set (map item_id coll)))"
  using run_BA snapshot_ids_bijective [OF run_BA] by (rule conjI)

subsection \<open>Rebuilding\<close>

text \<open>
  C5. Running the builder again on the same input, with the same digest and the same
  embedder, on the stores that the first run left, ends as the first run did and
  leaves the same stores: the same rows, ids, fingerprints, texts and vectors.
\<close>

theorem rebuild_idempotent:
  "run_pipeline sha256 encode data (snd (run_pipeline sha256 encode data st)) =
   run_pipeline sha256 encode data st"
  unfolding run_pipeline_def store_records_def Let_def
  by (auto split: sum.splits)

subsection \<open>Missing fields\<close>











subsection \<open>Validation of the request\<close>

text \<open>
  C9, as the code has it. A body without the field \<^verbatim>\<open>query\<close> is answered with the
  client error 422. A body whose \<^verbatim>\<open>query\<close> is the empty string is valid: the handler
  runs on the empty text like on any other.
\<close>

theorem missing_query_rejected_empty_accepted:
  "(map_of kvs ''query'' = None \<longrightarrow> post_search encode dist coll (JObj kvs) = Unprocessable) \<and>
   post_search encode dist coll (JObj [(''query'', JStr [])]) =
     (case search_patents encode dist coll [] of
        Inl e \<Rightarrow> ServerError | Inr results \<Rightarrow> Ok results)"
  by (simp add: post_search_def)

theorem missing_query_rejected_empty_accepted_witness:
  "map_of ([] :: (string \<times> json) list) ''query'' = None \<and>
   post_search example_encode example_dist [item_of ''0'' cleaned_A] (JObj []) = Unprocessable"
  using missing_query_rejected_empty_accepted
    [of "[]" example_encode example_dist "[item_of ''0'' cleaned_A]"]
  by simp

text \<open>
  C9 as stated fails: the empty query is answered with a result list.
\<close>

theorem empty_query_answered:
  "post_search example_encode example_dist [item_of ''0'' cleaned_A] (JObj [(''query'', JStr [])]) =
     Ok [result_of (item_of ''0'' cleaned_A)]"
  by code_simp

subsection \<open>Fingerprint and cleaned text\<close>





subsection \<open>The query text\<close>

text \<open>
  C1, as the code has it. The handler embeds the query text as it arrives, without
  folding case or trimming. Searching a text and searching its folded and trimmed form
  give the same result whenever the embedder maps the two texts to the same vector.
\<close>

theorem search_parity_of_insensitive_embedder:
  assumes "encode [clean_text q] = encode [q]"
  shows "search_patents encode dist coll (clean_text q) = search_patents encode dist coll q"
  using assms by (simp add: search_patents_def encode_one_def)

theorem search_parity_of_insensitive_embedder_witness:
  "folding_encode [clean_text ''  Alice Smith  ''] = folding_encode [''  Alice Smith  ''] \<and>
   search_patents folding_encode example_dist [item_of ''0'' cleaned_B, item_of ''1'' cleaned_A]
       (clean_text ''  Alice Smith  '') =
   search_patents folding_encode example_dist [item_of ''0'' cleaned_B, item_of ''1'' cleaned_A]
       ''  Alice Smith  ''"
proof -
  have h: "folding_encode [clean_text ''  Alice Smith  ''] = folding_encode [''  Alice Smith  '']"
    by code_simp
  from h search_parity_of_insensitive_embedder [OF h] show ?thesis by (rule conjI)
qed

text \<open>
  C1 as stated fails: on the collection built from the two example filings, with an
  embedder and a distance that tell capitals and spaces apart, the query
  \<^verbatim>\<open>"  Alice Smith  "\<close> and its folded and trimmed form \<^verbatim>\<open>"alice smith"\<close> have
  different top results.
\<close>

theorem raw_query_other_top_result:
  "clean_text ''  Alice Smith  '' = ''alice smith'' \<and>
   map_sum id (map res_application_number)
     (search_patents example_encode example_dist
        (get_or_create_collection
           (snd (run_pipeline example_digest example_encode
                   (data_of [record_B, record_A]) no_stores)))
        ''  Alice Smith  '') = Inr [JStr ''17000001'', JStr ''16123456''] \<and>
   map_sum id (map res_application_number)
     (search_patents example_encode example_dist
        (get_or_create_collection
           (snd (run_pipeline example_digest example_encode
                   (data_of [record_B, record_A]) no_stores)))
        ''alice smith'') = Inr [JStr ''16123456'', JStr ''17000001'']"
  by code_simp

end
